theory Spec2Isabelle
  imports Complex_Main "HOL-Library.AList" "HOL-Library.List_Lexorder" "HOL-Library.Char_ord"
begin

section \<open>Python values, exceptions and the library the module calls\<close>

text \<open>
  The module \<^verbatim>\<open>scripts/firebase_manager.py\<close> keeps API keys and usage logs in a
  Firestore database. Its functions are embedded as HOL functions: an exception of the
  source is a value \<open>Inl e\<close> of a sum type, a returned value is \<open>Inr v\<close>, and the
  database the methods write to is passed in and returned. The store is taken to be
  available: a call on it raises only what its client raises on the arguments of the
  call.

  A field name and a text that a document holds are a \<open>string\<close>, the list of the
  UTF-8 bytes. The last exception below stands for the classes of the store's client.
\<close>

datatype pyerror =
  TypeError | NameError | AttributeError | KeyError | ValueError | OverflowError
  | UnicodeEncodeError | GoogleAPIError

text \<open>
  The values a Firestore document or a dataclass field holds. The dataclasses of the
  source declare field types and do not enforce them, so a field holds any value.
\<close>

datatype pyval =
  PNone
  | PBool bool
  | PInt int
  | PFloat rat
  | PStr string
  | PList "string list"
  | PDict "(string \<times> string) list"

text \<open>Truth value testing, as \<^verbatim>\<open>if x:\<close>, \<^verbatim>\<open>not x\<close> and \<^verbatim>\<open>x or y\<close> apply it.\<close>

fun truthy :: "pyval \<Rightarrow> bool" where
  "truthy PNone = False"
| "truthy (PBool b) = b"
| "truthy (PInt i) = (i \<noteq> 0)"
| "truthy (PFloat r) = (r \<noteq> 0)"
| "truthy (PStr s) = (s \<noteq> [])"
| "truthy (PList l) = (l \<noteq> [])"
| "truthy (PDict d) = (d \<noteq> [])"

text \<open>
  A \<^verbatim>\<open>str\<close> that a caller passes as a raw key is the list of its code points: it
  may hold a lone surrogate (U+D800 to U+DFFF), as a command line argument with a byte
  that is not UTF-8 does, and such a \<^verbatim>\<open>str\<close> has no UTF-8 encoding.
\<close>

type_synonym pystr = "nat list"

definition is_surrogate :: "nat \<Rightarrow> bool" where
  "is_surrogate c = (55296 \<le> c \<and> c \<le> 57343)"

text \<open>The UTF-8 bytes of a code point up to U+10FFFF that is no surrogate.\<close>

definition utf8 :: "nat \<Rightarrow> string" where
  "utf8 c =
     (if c < 128 then [char_of c]
      else if c < 2048 then [char_of (192 + c div 64), char_of (128 + c mod 64)]
      else if c < 65536 then
        [char_of (224 + c div 4096), char_of (128 + c div 64 mod 64), char_of (128 + c mod 64)]
      else
        [char_of (240 + c div 262144), char_of (128 + c div 4096 mod 64),
         char_of (128 + c div 64 mod 64), char_of (128 + c mod 64)])"

text \<open>\<^verbatim>\<open>key.encode()\<close>: the UTF-8 bytes, or UnicodeEncodeError on a lone surrogate.\<close>

definition encode :: "pystr \<Rightarrow> pyerror + string" where
  "encode key =
     (if list_ex is_surrogate key then Inl UnicodeEncodeError
      else Inr (concat (map utf8 key)))"

text \<open>The \<^verbatim>\<open>str\<close> of the characters given, each below U+0100.\<close>

definition str_of :: "string \<Rightarrow> pystr" where
  "str_of b = map of_char b"

text \<open>
  A naive \<^verbatim>\<open>datetime\<close> is the number of microseconds since 0001-01-01T00:00:00;
  \<^verbatim>\<open>datetime.max\<close> is 9999-12-31T23:59:59.999999, the last microsecond of day
  number 3652059.
\<close>

type_synonym datetime = int

definition datetime_max :: datetime where
  "datetime_max = 3652059 * 86400000000 - 1"

text \<open>\<^verbatim>\<open>timedelta(days=d)\<close>: the magnitude of \<open>d\<close> is at most 999999999 days.\<close>

definition timedelta_days :: "int \<Rightarrow> pyerror + int" where
  "timedelta_days d =
     (if 999999999 < \<bar>d\<bar> then Inl OverflowError else Inr (d * 86400000000))"

text \<open>\<^verbatim>\<open>t + delta\<close>: the sum is a date of the years 1 to 9999, or OverflowError.\<close>

definition datetime_add :: "datetime \<Rightarrow> int \<Rightarrow> pyerror + datetime" where
  "datetime_add t delta =
     (if 0 \<le> t + delta \<and> t + delta \<le> datetime_max then Inr (t + delta)
      else Inl OverflowError)"

text \<open>
  The functions of the standard library whose results the module stores and reads back
  are parameters of the model: \<^verbatim>\<open>hashlib.sha256(b).hexdigest()\<close>,
  \<^verbatim>\<open>datetime.isoformat\<close> and \<^verbatim>\<open>datetime.fromisoformat\<close>. The latter
  returns a naive datetime, an offset-aware one (which no naive datetime compares with),
  or raises ValueError on a text it cannot read.

  So is what the client of the store does with the arguments it is given.
  \<open>document_ref i\<close> is what \<^verbatim>\<open>collection.document(i)\<close> and the first call on
  the reference make of the id \<open>i\<close>: an exception, the document of that id in the
  collection, or a document on a longer path, outside the two collections of the source
  (the store holds none there). \<open>set_error d\<close> is the exception that a write of
  the fields \<open>d\<close> raises, if the client refuses them.
\<close>

datatype parsed = Naive datetime | Aware | Malformed

datatype docref = Refused pyerror | InCollection | Elsewhere

record pylib =
  sha256_hexdigest :: "string \<Rightarrow> string"
  isoformat :: "datetime \<Rightarrow> string"
  fromisoformat :: "string \<Rightarrow> parsed"
  document_ref :: "string \<Rightarrow> docref"
  set_error :: "(string \<times> pyval) list \<Rightarrow> pyerror option"

text \<open>
  \<^verbatim>\<open>s.replace(old, new)\<close>: every occurrence of \<open>old\<close>, found from the left
  and not overlapping, is replaced; an empty \<open>old\<close> matches before every character
  and at the end.
\<close>

function py_replace :: "string \<Rightarrow> string \<Rightarrow> string \<Rightarrow> string" where
  "py_replace old new [] = (if old = [] then new else [])"
| "py_replace old new (c # cs) =
     (if old = [] then new @ c # py_replace old new cs
      else if take (length old) (c # cs) = old
        then new @ py_replace old new (drop (length old) (c # cs))
      else c # py_replace old new cs)"
  by pat_completeness auto
termination
  by (relation "measure (\<lambda>(old, new, s). length s)") (auto simp: neq_Nil_conv)

section \<open>The Firestore database\<close>

text \<open>
  A document is a dictionary from field names to values, a collection associates document
  ids with documents. Both are association lists with distinct keys.
\<close>

type_synonym doc = "(string \<times> pyval) list"

type_synonym collection = "(string \<times> doc) list"

record firestore =
  apiKeys :: collection
  usageLogs :: collection

text \<open>\<^verbatim>\<open>collection.document(i).get()\<close>: the snapshot exists iff this is \<open>Some\<close>.\<close>

definition doc_get :: "collection \<Rightarrow> string \<Rightarrow> doc option" where
  "doc_get c i = map_of c i"

text \<open>\<^verbatim>\<open>document(i).set(d)\<close> creates or overwrites the document.\<close>

definition doc_set :: "collection \<Rightarrow> string \<Rightarrow> doc \<Rightarrow> collection" where
  "doc_set c i d = AList.update i d c"

text \<open>\<^verbatim>\<open>document(i).update(fields)\<close> writes the fields into an existing document.\<close>

definition doc_update :: "collection \<Rightarrow> string \<Rightarrow> doc \<Rightarrow> collection" where
  "doc_update c i fs =
     AList.map_entry i (\<lambda>d. fold (\<lambda>(k, v). AList.update k v) fs d) c"

text \<open>\<^verbatim>\<open>document(i).delete()\<close>.\<close>

definition doc_delete :: "collection \<Rightarrow> string \<Rightarrow> collection" where
  "doc_delete c i = AList.delete i c"

text \<open>
  \<^verbatim>\<open>collection.where(field, "==", v).stream()\<close>: the documents that have the
  field, with a value equal to \<open>v\<close>, in the ascending order of their ids (the
  order of the bytes).
\<close>

definition where_eq :: "collection \<Rightarrow> string \<Rightarrow> pyval \<Rightarrow> collection" where
  "where_eq c field v = sort_key fst (filter (\<lambda>(i, d). map_of d field = Some v) c)"

section \<open>The dataclasses\<close>

text \<open>
  \<^verbatim>\<open>ApiKey\<close>, with the fields of the source in their order; \<open>id_key\<close> is the
  field \<^verbatim>\<open>id\<close>. The last three fields default to \<^verbatim>\<open>None\<close>.
\<close>

record ApiKey =
  id_key :: pyval
  key_hash :: pyval
  user_id :: pyval
  user_email :: pyval
  name :: pyval
  description :: pyval
  created_at :: pyval
  start_date :: pyval
  expires_at :: pyval
  is_active :: pyval
  request_count :: pyval
  rate_limit :: pyval
  allowed_endpoints :: pyval
  last_used_at :: pyval
  ip_whitelist :: pyval
  metadata :: pyval

definition ApiKey_to_dict :: "ApiKey \<Rightarrow> doc" where
  "ApiKey_to_dict k =
     [(''id'', id_key k),
      (''keyHash'', key_hash k),
      (''userId'', user_id k),
      (''userEmail'', user_email k),
      (''name'', name k),
      (''description'', description k),
      (''createdAt'', created_at k),
      (''startDate'', start_date k),
      (''expiresAt'', expires_at k),
      (''isActive'', is_active k),
      (''requestCount'', request_count k),
      (''rateLimit'', rate_limit k),
      (''allowedEndpoints'', allowed_endpoints k),
      (''lastUsedAt'', last_used_at k),
      (''ipWhitelist'', ip_whitelist k),
      (''metadata'', metadata k)]"

text \<open>The parameters of the generated \<^verbatim>\<open>ApiKey.__init__\<close>, and those without default.\<close>

definition ApiKey_fields :: "string list" where
  "ApiKey_fields =
     [''id'', ''key_hash'', ''user_id'', ''user_email'', ''name'', ''description'',
      ''created_at'', ''start_date'', ''expires_at'', ''is_active'', ''request_count'',
      ''rate_limit'', ''allowed_endpoints'', ''last_used_at'', ''ip_whitelist'',
      ''metadata'']"

definition ApiKey_required :: "string list" where
  "ApiKey_required =
     [''id'', ''key_hash'', ''user_id'', ''user_email'', ''name'', ''description'',
      ''created_at'', ''start_date'', ''expires_at'', ''is_active'', ''request_count'',
      ''rate_limit'', ''allowed_endpoints'']"

text \<open>The value of a keyword argument; an argument left out takes the default \<^verbatim>\<open>None\<close>.\<close>

definition kwarg :: "doc \<Rightarrow> string \<Rightarrow> pyval" where
  "kwarg kw f = (case map_of kw f of Some v \<Rightarrow> v | None \<Rightarrow> PNone)"

text \<open>
  \<^verbatim>\<open>ApiKey(**kw)\<close>: TypeError on a keyword that is no parameter, TypeError on a
  parameter without default that is left out, the object otherwise.
\<close>

definition ApiKey_init :: "doc \<Rightarrow> pyerror + ApiKey" where
  "ApiKey_init kw =
     (if list_ex (\<lambda>k. k \<notin> set ApiKey_fields) (map fst kw) then Inl TypeError
      else if list_ex (\<lambda>f. map_of kw f = None) ApiKey_required then Inl TypeError
      else Inr \<lparr>id_key = kwarg kw ''id'',
                key_hash = kwarg kw ''key_hash'',
                user_id = kwarg kw ''user_id'',
                user_email = kwarg kw ''user_email'',
                name = kwarg kw ''name'',
                description = kwarg kw ''description'',
                created_at = kwarg kw ''created_at'',
                start_date = kwarg kw ''start_date'',
                expires_at = kwarg kw ''expires_at'',
                is_active = kwarg kw ''is_active'',
                request_count = kwarg kw ''request_count'',
                rate_limit = kwarg kw ''rate_limit'',
                allowed_endpoints = kwarg kw ''allowed_endpoints'',
                last_used_at = kwarg kw ''last_used_at'',
                ip_whitelist = kwarg kw ''ip_whitelist'',
                metadata = kwarg kw ''metadata''\<rparr>)"

text \<open>
  The renaming of the stored field names that \<^verbatim>\<open>validate_api_key\<close> and
  \<^verbatim>\<open>get_user_api_keys\<close> apply, the six \<^verbatim>\<open>replace\<close> calls in their order
  (the second one replaces \<^verbatim>\<open>is_\<close> by itself).
\<close>

definition remap_key :: "string \<Rightarrow> string" where
  "remap_key k =
     py_replace ''Whitelist'' ''_whitelist''
       (py_replace ''Endpoints'' ''_endpoints''
         (py_replace ''Limit'' ''_limit''
           (py_replace ''Count'' ''_count''
             (py_replace ''is_'' ''is_''
               (py_replace ''At'' ''_at'' k)))))"

text \<open>
  The dictionary comprehension \<^verbatim>\<open>{remap(k): v for k, v in d.items()}\<close>: a key
  that comes twice keeps its first place and takes the last value.
\<close>

definition remap_dict :: "doc \<Rightarrow> doc" where
  "remap_dict d = fold (\<lambda>(k, v) acc. AList.update (remap_key k) v acc) d []"

text \<open>
  \<^verbatim>\<open>UsageLog\<close>, built by \<^verbatim>\<open>log_usage\<close> only, from arguments of the declared
  types; \<open>id_log\<close> and \<open>method_log\<close> are the fields \<^verbatim>\<open>id\<close> and
  \<^verbatim>\<open>method\<close>.
\<close>

record UsageLog =
  id_log :: string
  api_key_id :: string
  endpoint :: string
  method_log :: string
  status_code :: int
  response_time :: int
  timestamp :: string
  ip_address :: string
  user_agent :: string
  query_params :: "(string \<times> string) list option"

definition UsageLog_to_dict :: "UsageLog \<Rightarrow> doc" where
  "UsageLog_to_dict l =
     [(''id'', PStr (id_log l)),
      (''apiKeyId'', PStr (api_key_id l)),
      (''endpoint'', PStr (endpoint l)),
      (''method'', PStr (method_log l)),
      (''statusCode'', PInt (status_code l)),
      (''responseTime'', PInt (response_time l)),
      (''timestamp'', PStr (timestamp l)),
      (''ipAddress'', PStr (ip_address l)),
      (''userAgent'', PStr (user_agent l)),
      (''queryParams'', (case query_params l of None \<Rightarrow> PNone | Some q \<Rightarrow> PDict q))]"

section \<open>The key manager\<close>

text \<open>
  \<^verbatim>\<open>FirebaseManager.__init__\<close>. The package \<^verbatim>\<open>firebase_admin\<close> is missing,
  or it is there with an app already initialised or not, credentials at hand (in the
  environment or at the path given) or not, and the client it would connect. A missing
  package leaves \<^verbatim>\<open>self.db = None\<close>; missing credentials raise ValueError.
\<close>

datatype backend = NotInstalled | Installed bool bool firestore

definition FirebaseManager_init :: "backend \<Rightarrow> pyerror + firestore option" where
  "FirebaseManager_init b =
     (case b of
        NotInstalled \<Rightarrow> Inr None
      | Installed app_initialised credentials client \<Rightarrow>
          if \<not> app_initialised \<and> \<not> credentials then Inl ValueError
          else Inr (Some client))"

text \<open>
  \<^verbatim>\<open>generate_api_key\<close>; \<open>random_part\<close> holds the characters that
  \<^verbatim>\<open>secrets.token_hex(32)\<close> returns, 64 hexadecimal digits.
\<close>

definition generate_api_key :: "string \<Rightarrow> pystr" where
  "generate_api_key random_part = str_of (''nf_live_'' @ random_part)"

text \<open>\<^verbatim>\<open>hash_api_key\<close>: the key is encoded, then hashed.\<close>

definition hash_api_key :: "pylib \<Rightarrow> pystr \<Rightarrow> pyerror + string" where
  "hash_api_key L key =
     (case encode key of Inl e \<Rightarrow> Inl e | Inr b \<Rightarrow> Inr (sha256_hexdigest L b))"

text \<open>
  \<^verbatim>\<open>create_api_key\<close>. Besides the arguments of the source, in their order, it
  takes what the call draws from its environment: the random part of the key, the text
  of \<^verbatim>\<open>uuid.uuid4()\<close> (36 hexadecimal digits and hyphens, which the client takes
  as the id of a document of the collection) and \<^verbatim>\<open>datetime.utcnow()\<close>. It
  returns the key object, the raw key and the database.
\<close>

definition create_api_key ::
  "pylib \<Rightarrow> firestore option \<Rightarrow> string \<Rightarrow> string \<Rightarrow> datetime \<Rightarrow>
   string \<Rightarrow> string \<Rightarrow> string \<Rightarrow> string \<Rightarrow> int \<Rightarrow> int \<Rightarrow>
   string list option \<Rightarrow> string list option \<Rightarrow> int \<Rightarrow>
   pyerror + (ApiKey \<times> pystr \<times> firestore option)" where
  "create_api_key L db random_part uuid4 now
     user_id' user_email' name' description' expires_in_days rate_limit'
     allowed_endpoints' ip_whitelist' start_delay_days =
     (let raw_key = generate_api_key random_part
      in (case hash_api_key L raw_key of
           Inl e \<Rightarrow> Inl e
         | Inr key_hash' \<Rightarrow>
        (case timedelta_days start_delay_days of
           Inl e \<Rightarrow> Inl e
         | Inr delay \<Rightarrow>
        (case datetime_add now delay of
           Inl e \<Rightarrow> Inl e
         | Inr start_date' \<Rightarrow>
        (case timedelta_days expires_in_days of
           Inl e \<Rightarrow> Inl e
         | Inr validity \<Rightarrow>
        (case datetime_add start_date' validity of
           Inl e \<Rightarrow> Inl e
         | Inr expires_at' \<Rightarrow>
            (let api_key =
               \<lparr>id_key = PStr uuid4,
                key_hash = PStr key_hash',
                user_id = PStr user_id',
                user_email = PStr user_email',
                name = PStr name',
                description = PStr description',
                created_at = PStr (isoformat L now @ ''Z''),
                start_date = PStr (isoformat L start_date' @ ''Z''),
                expires_at = PStr (isoformat L expires_at' @ ''Z''),
                is_active = PBool True,
                request_count = PInt 0,
                rate_limit = PInt rate_limit',
                allowed_endpoints =
                  (case allowed_endpoints' of
                     None \<Rightarrow> PList [''/api/news'', ''/api/news/search'']
                   | Some eps \<Rightarrow>
                       if eps = [] then PList [''/api/news'', ''/api/news/search'']
                       else PList eps),
                last_used_at = PNone,
                ip_whitelist = (case ip_whitelist' of None \<Rightarrow> PNone | Some ips \<Rightarrow> PList ips),
                metadata = PNone\<rparr>
             in (case db of
                   Some s \<Rightarrow>
                     (case set_error L (ApiKey_to_dict api_key) of
                        Some e \<Rightarrow> Inl e
                      | None \<Rightarrow>
                          Inr (api_key, raw_key,
                               Some (s\<lparr>apiKeys :=
                                       doc_set (apiKeys s) uuid4 (ApiKey_to_dict api_key)\<rparr>)))
                 | None \<Rightarrow> Inr (api_key, raw_key, None)))))))))"

text \<open>
  The lines \<^verbatim>\<open>validate_api_key\<close> prints; its return value is \<^verbatim>\<open>None\<close> on each
  of them but the last: \<^verbatim>\<open>API key is revoked\<close>, \<^verbatim>\<open>API key not yet active\<close>,
  \<^verbatim>\<open>API key expired\<close>, \<^verbatim>\<open>API key not found\<close>, and
  \<^verbatim>\<open>API key valid:\<close> with the name of the key.
\<close>

datatype message = KeyRevoked | KeyNotYetActive | KeyExpired | KeyNotFound | KeyValid pyval

text \<open>
  \<^verbatim>\<open>datetime.fromisoformat(v.replace("Z", ""))\<close>, for the comparison with a naive
  \<^verbatim>\<open>now\<close> that follows it at once: only a \<^verbatim>\<open>str\<close> has \<^verbatim>\<open>replace\<close>
  (AttributeError), the text may be unreadable (ValueError), and an offset-aware result
  does not compare with \<^verbatim>\<open>now\<close> (TypeError).
\<close>

definition read_date :: "pylib \<Rightarrow> pyval \<Rightarrow> pyerror + datetime" where
  "read_date L v =
     (case v of
        PStr s \<Rightarrow>
          (case fromisoformat L (py_replace ''Z'' [] s) of
             Naive t \<Rightarrow> Inr t
           | Aware \<Rightarrow> Inl TypeError
           | Malformed \<Rightarrow> Inl ValueError)
      | _ \<Rightarrow> Inl AttributeError)"

text \<open>The checks of \<^verbatim>\<open>validate_api_key\<close> on the key object, in the order of the source.\<close>

definition check_key ::
  "pylib \<Rightarrow> datetime \<Rightarrow> ApiKey \<Rightarrow> pyerror + (message list \<times> ApiKey option)" where
  "check_key L now api_key =
     (if \<not> truthy (is_active api_key) then Inr ([KeyRevoked], None)
      else
        (case read_date L (start_date api_key) of
           Inl e \<Rightarrow> Inl e
         | Inr start_date' \<Rightarrow>
             (if now < start_date' then Inr ([KeyNotYetActive], None)
              else
                (case read_date L (expires_at api_key) of
                   Inl e \<Rightarrow> Inl e
                 | Inr expires_at' \<Rightarrow>
                     (if now > expires_at' then Inr ([KeyExpired], None)
                      else Inr ([KeyValid (name api_key)], Some api_key))))))"

text \<open>
  The loop of \<^verbatim>\<open>validate_api_key\<close> over the documents the query streams: the
  first non-empty document decides, and the line after the loop reports that none did.
\<close>

fun validate_docs ::
  "pylib \<Rightarrow> datetime \<Rightarrow> doc list \<Rightarrow> pyerror + (message list \<times> ApiKey option)" where
  "validate_docs L now [] = Inr ([KeyNotFound], None)"
| "validate_docs L now (api_key_data # ds) =
     (if api_key_data \<noteq> [] then
        (case ApiKey_init (remap_dict api_key_data) of
           Inl e \<Rightarrow> Inl e
         | Inr api_key \<Rightarrow> check_key L now api_key)
      else validate_docs L now ds)"

text \<open>
  \<^verbatim>\<open>validate_api_key\<close>: what it prints and what it returns. The raw key is hashed
  first, before the test for a database. It reads the database and never writes it.
\<close>

definition validate_api_key ::
  "pylib \<Rightarrow> firestore option \<Rightarrow> datetime \<Rightarrow> pystr \<Rightarrow>
   pyerror + (message list \<times> ApiKey option)" where
  "validate_api_key L db now raw_key =
     (case hash_api_key L raw_key of
        Inl e \<Rightarrow> Inl e
      | Inr key_hash' \<Rightarrow>
          (case db of
             None \<Rightarrow> Inr ([], None)
           | Some s \<Rightarrow>
               validate_docs L now
                 (map snd (take 1 (where_eq (apiKeys s) ''keyHash'' (PStr key_hash'))))))"

text \<open>
  \<^verbatim>\<open>revoke_api_key\<close>: the database after the call and the value returned. The
  test for a database comes first, then the reference to the document is made.
\<close>

definition revoke_api_key ::
  "pylib \<Rightarrow> firestore option \<Rightarrow> string \<Rightarrow> pyerror + (firestore option \<times> bool)" where
  "revoke_api_key L db key_id =
     (case db of
        None \<Rightarrow> Inr (None, False)
      | Some s \<Rightarrow>
          (case document_ref L key_id of
             Refused e \<Rightarrow> Inl e
           | Elsewhere \<Rightarrow> Inr (Some s, False)
           | InCollection \<Rightarrow>
               if doc_get (apiKeys s) key_id \<noteq> None
               then Inr (Some (s\<lparr>apiKeys :=
                                  doc_update (apiKeys s) key_id [(''isActive'', PBool False)]\<rparr>),
                         True)
               else Inr (Some s, False)))"

text \<open>\<^verbatim>\<open>delete_api_key\<close>.\<close>

definition delete_api_key ::
  "pylib \<Rightarrow> firestore option \<Rightarrow> string \<Rightarrow> pyerror + (firestore option \<times> bool)" where
  "delete_api_key L db key_id =
     (case db of
        None \<Rightarrow> Inr (None, False)
      | Some s \<Rightarrow>
          (case document_ref L key_id of
             Refused e \<Rightarrow> Inl e
           | Elsewhere \<Rightarrow> Inr (Some s, False)
           | InCollection \<Rightarrow>
               if doc_get (apiKeys s) key_id \<noteq> None
               then Inr (Some (s\<lparr>apiKeys := doc_delete (apiKeys s) key_id\<rparr>), True)
               else Inr (Some s, False)))"

text \<open>
  \<^verbatim>\<open>get_user_api_keys\<close>: the list comprehension builds one key object for each
  document of the user, and the first construction that raises ends it.
\<close>

fun build_keys :: "doc list \<Rightarrow> pyerror + ApiKey list" where
  "build_keys [] = Inr []"
| "build_keys (d # ds) =
     (case ApiKey_init (remap_dict d) of
        Inl e \<Rightarrow> Inl e
      | Inr k \<Rightarrow> (case build_keys ds of Inl e \<Rightarrow> Inl e | Inr ks \<Rightarrow> Inr (k # ks)))"

definition get_user_api_keys :: "firestore option \<Rightarrow> string \<Rightarrow> pyerror + ApiKey list" where
  "get_user_api_keys db uid =
     (case db of
        None \<Rightarrow> Inr []
      | Some s \<Rightarrow> build_keys (map snd (where_eq (apiKeys s) ''userId'' (PStr uid))))"

text \<open>
  The names bound at module level: the imports at the head of the file, its two
  dataclasses, the manager class and \<^verbatim>\<open>main\<close>. The names \<^verbatim>\<open>firebase_admin\<close>,
  \<^verbatim>\<open>credentials\<close> and \<^verbatim>\<open>firestore\<close> are imported inside
  \<^verbatim>\<open>__init__\<close> and are local to it.
\<close>

definition module_globals :: "string list" where
  "module_globals =
     [''argparse'', ''json'', ''os'', ''hashlib'', ''secrets'', ''datetime'', ''timedelta'',
      ''Optional'', ''dataclass'', ''asdict'', ''uuid'', ''ApiKey'', ''UsageLog'',
      ''FirebaseManager'', ''main'']"

text \<open>\<^verbatim>\<open>v + 1\<close>: on a number; TypeError on \<^verbatim>\<open>None\<close>, a string, a list, a dict.\<close>

definition py_add_one :: "pyval \<Rightarrow> pyerror + pyval" where
  "py_add_one v =
     (case v of
        PInt i \<Rightarrow> Inr (PInt (i + 1))
      | PBool b \<Rightarrow> Inr (PInt (of_bool b + 1))
      | PFloat r \<Rightarrow> Inr (PFloat (r + 1))
      | _ \<Rightarrow> Inl TypeError)"

text \<open>
  The transaction \<^verbatim>\<open>update_in_transaction\<close> of \<^verbatim>\<open>log_usage\<close>, run on its
  own: the snapshot of a missing document gives \<^verbatim>\<open>None\<close> for the counter, a
  missing field raises KeyError, the client may refuse the fields of either write, and the
  two writes are applied together.
\<close>

definition update_in_transaction ::
  "pylib \<Rightarrow> firestore \<Rightarrow> string \<Rightarrow> string \<Rightarrow> doc \<Rightarrow> pyerror + firestore" where
  "update_in_transaction L s key_id log_id' log_data =
     (case doc_get (apiKeys s) key_id of
        None \<Rightarrow> Inl TypeError
      | Some snapshot \<Rightarrow>
          (case map_of snapshot ''requestCount'' of
             None \<Rightarrow> Inl KeyError
           | Some c \<Rightarrow>
               (case py_add_one c of
                  Inl e \<Rightarrow> Inl e
                | Inr new_count \<Rightarrow>
                    (let updates =
                       [(''requestCount'', new_count),
                        (''lastUsedAt'', kwarg log_data ''timestamp'')]
                     in (case set_error L updates of
                           Some e \<Rightarrow> Inl e
                         | None \<Rightarrow>
                             (case set_error L log_data of
                                Some e \<Rightarrow> Inl e
                              | None \<Rightarrow>
                                  Inr (s\<lparr>apiKeys := doc_update (apiKeys s) key_id updates,
                                        usageLogs :=
                                          doc_set (usageLogs s) log_id' log_data\<rparr>)))))))"

text \<open>
  \<^verbatim>\<open>log_usage\<close>: besides the arguments of the source it takes the text of
  \<^verbatim>\<open>uuid.uuid4()\<close> and \<^verbatim>\<open>datetime.utcnow()\<close>. It returns
  the log object (\<^verbatim>\<open>None\<close> without a database) and the database. The decorator
  \<^verbatim>\<open>@firestore.transactional\<close> is evaluated when the inner function is defined,
  after the log object is built: the name \<^verbatim>\<open>firestore\<close> is looked up among the
  module's globals, and a name that is not bound raises NameError. The reference to the
  document of the key is made after that; a document on a longer path has no snapshot.
\<close>

definition log_usage ::
  "pylib \<Rightarrow> firestore option \<Rightarrow> string \<Rightarrow> datetime \<Rightarrow>
   string \<Rightarrow> string \<Rightarrow> string \<Rightarrow> int \<Rightarrow> int \<Rightarrow> string \<Rightarrow> string \<Rightarrow>
   (string \<times> string) list option \<Rightarrow>
   pyerror + (UsageLog option \<times> firestore option)" where
  "log_usage L db uuid4 now
     api_key_id' endpoint' method' status_code' response_time' ip_address' user_agent'
     query_params' =
     (case db of
        None \<Rightarrow> Inr (None, None)
      | Some s \<Rightarrow>
          (let log =
             \<lparr>id_log = uuid4,
              api_key_id = api_key_id',
              endpoint = endpoint',
              method_log = method',
              status_code = status_code',
              response_time = response_time',
              timestamp = isoformat L now @ ''Z'',
              ip_address = ip_address',
              user_agent = user_agent',
              query_params = query_params'\<rparr>
           in if ''firestore'' \<notin> set module_globals then Inl NameError
              else
                (case document_ref L api_key_id' of
                   Refused e \<Rightarrow> Inl e
                 | Elsewhere \<Rightarrow> Inl TypeError
                 | InCollection \<Rightarrow>
                     (case update_in_transaction L s api_key_id' (id_log log)
                             (UsageLog_to_dict log) of
                        Inl e \<Rightarrow> Inl e
                      | Inr s' \<Rightarrow> Inr (Some log, Some s')))))"

text \<open>
  \<^verbatim>\<open>l.a\<close> on a dictionary \<open>l\<close>, for a name \<open>a\<close> that is no method of
  \<^verbatim>\<open>dict\<close>: the keys of a dictionary are not its attributes.
\<close>

definition dict_getattr :: "doc \<Rightarrow> string \<Rightarrow> pyerror + pyval" where
  "dict_getattr l a = Inl AttributeError"

text \<open>A value as a number, for a comparison with a number or a sum; TypeError otherwise.\<close>

definition as_num :: "pyval \<Rightarrow> pyerror + rat" where
  "as_num v =
     (case v of
        PInt i \<Rightarrow> Inr (of_int i)
      | PBool b \<Rightarrow> Inr (of_bool b)
      | PFloat r \<Rightarrow> Inr r
      | _ \<Rightarrow> Inl TypeError)"

text \<open>\<^verbatim>\<open>sum(1 for l in logs if 200 <= l.status_code < 300)\<close>.\<close>

fun success_count :: "doc list \<Rightarrow> pyerror + int" where
  "success_count [] = Inr 0"
| "success_count (l # ls) =
     (case dict_getattr l ''status_code'' of
        Inl e \<Rightarrow> Inl e
      | Inr v \<Rightarrow>
          (case as_num v of
             Inl e \<Rightarrow> Inl e
           | Inr c \<Rightarrow>
               (case success_count ls of
                  Inl e \<Rightarrow> Inl e
                | Inr n \<Rightarrow> Inr (if 200 \<le> c \<and> c < 300 then n + 1 else n))))"

text \<open>\<^verbatim>\<open>sum(l.response_time for l in logs)\<close>.\<close>

fun response_time_sum :: "doc list \<Rightarrow> pyerror + rat" where
  "response_time_sum [] = Inr 0"
| "response_time_sum (l # ls) =
     (case dict_getattr l ''response_time'' of
        Inl e \<Rightarrow> Inl e
      | Inr v \<Rightarrow>
          (case as_num v of
             Inl e \<Rightarrow> Inl e
           | Inr t \<Rightarrow>
               (case response_time_sum ls of Inl e \<Rightarrow> Inl e | Inr n \<Rightarrow> Inr (t + n))))"

text \<open>
  \<^verbatim>\<open>round(x, 2)\<close>. The quotients of the source are floats; here they are exact
  rationals, rounded to the nearest hundredth, a tie to the even one. The lines that
  compute them come after the two sums above.
\<close>

definition round_half_even :: "rat \<Rightarrow> int" where
  "round_half_even y =
     (if y - of_int \<lfloor>y\<rfloor> < 1 / 2 then \<lfloor>y\<rfloor>
      else if 1 / 2 < y - of_int \<lfloor>y\<rfloor> then \<lfloor>y\<rfloor> + 1
      else if even \<lfloor>y\<rfloor> then \<lfloor>y\<rfloor>
      else \<lfloor>y\<rfloor> + 1)"

definition round2 :: "rat \<Rightarrow> rat" where
  "round2 x = of_int (round_half_even (x * 100)) / 100"

text \<open>
  \<^verbatim>\<open>get_usage_stats\<close>: the dictionary it returns. The list \<^verbatim>\<open>logs\<close> holds the
  dictionaries \<^verbatim>\<open>log.to_dict()\<close> of the documents found.
\<close>

definition get_usage_stats :: "firestore option \<Rightarrow> string \<Rightarrow> pyerror + doc" where
  "get_usage_stats db key_id =
     (case db of
        None \<Rightarrow> Inr []
      | Some s \<Rightarrow>
          (let logs = map snd (where_eq (usageLogs s) ''apiKeyId'' (PStr key_id))
           in if logs = [] then
                Inr [(''totalRequests'', PInt 0),
                     (''avgResponseTime'', PInt 0),
                     (''successRate'', PInt 0)]
              else
                (let total = int (length logs)
                 in (case success_count logs of
                       Inl e \<Rightarrow> Inl e
                     | Inr success \<Rightarrow>
                         (case response_time_sum logs of
                            Inl e \<Rightarrow> Inl e
                          | Inr time_sum \<Rightarrow>
                              Inr [(''totalRequests'', PInt total),
                                   (''avgResponseTime'', PFloat (round2 (time_sum / of_int total))),
                                   (''successRate'',
                                    PFloat (round2 (of_int success / of_int total * 100))),
                                   (''errorCount'', PInt (total - success))])))))"

section \<open>Sample data\<close>

text \<open>
  The random part of a raw key, two document ids, and an instance of the library that
  agrees with \<^verbatim>\<open>hashlib\<close> on this key and with \<^verbatim>\<open>datetime\<close> on four
  instants: the midnights of 2023-12-31, 2024-01-01, 2024-01-31 and 2024-02-01. Its
  client takes an id without a slash as a document of the collection, refuses an id
  with an odd number of slashes, such as \<^verbatim>\<open>a/b\<close>, with ValueError, and refuses a
  document that holds an integer outside 64 bits with ValueError.
\<close>

definition sample_random :: string where
  "sample_random = ''3b1f9c0e7a5d42c8b6e1f0a94d7c35e2a8f6b1c09d3e4f5a6b7c8d9e0f1a2b3c''"

definition sample_uuid :: string where
  "sample_uuid = ''0b9d1c5e-7f3a-4a52-9c1e-2d6f8b7a4e10''"

definition other_uuid :: string where
  "other_uuid = ''c4e8a1f2-3d5b-4f6a-8b7c-9e0d1f2a3b4c''"

definition t_2023_12_31 :: datetime where "t_2023_12_31 = 63839577600000000"

definition t_2024_01_01 :: datetime where "t_2024_01_01 = 63839664000000000"

definition t_2024_01_31 :: datetime where "t_2024_01_31 = 63842256000000000"

definition t_2024_02_01 :: datetime where "t_2024_02_01 = 63842342400000000"

definition sample_lib :: pylib where
  "sample_lib =
     \<lparr>sha256_hexdigest =
        (\<lambda>b. if b = ''nf_live_'' @ sample_random
             then ''77fd835a02a5f73f545551bfe85b90c8597625a1424cf6a31a991539932b68d3''
             else []),
      isoformat =
        (\<lambda>t. if t = t_2023_12_31 then ''2023-12-31T00:00:00''
             else if t = t_2024_01_01 then ''2024-01-01T00:00:00''
             else if t = t_2024_01_31 then ''2024-01-31T00:00:00''
             else if t = t_2024_02_01 then ''2024-02-01T00:00:00''
             else []),
      fromisoformat =
        (\<lambda>x. if x = ''2023-12-31T00:00:00'' then Naive t_2023_12_31
             else if x = ''2024-01-01T00:00:00'' then Naive t_2024_01_01
             else if x = ''2024-01-31T00:00:00'' then Naive t_2024_01_31
             else if x = ''2024-02-01T00:00:00'' then Naive t_2024_02_01
             else Malformed),
      document_ref =
        (\<lambda>i. if odd (length (filter (\<lambda>c. c = CHR ''/'') i)) then Refused ValueError
             else if filter (\<lambda>c. c = CHR ''/'') i = [] then InCollection
             else Elsewhere),
      set_error =
        (\<lambda>d. if list_ex
                  (\<lambda>(f, v). case v of
                              PInt i \<Rightarrow> i < - 9223372036854775808 \<or> 9223372036854775807 < i
                            | _ \<Rightarrow> False) d
             then Some ValueError
             else None)\<rparr>"

definition empty_db :: firestore where
  "empty_db = \<lparr>apiKeys = [], usageLogs = []\<rparr>"

text \<open>A store whose one key has used up its rate limit of two requests.\<close>

definition db_at_limit :: firestore where
  "db_at_limit =
     \<lparr>apiKeys =
        [(sample_uuid,
          [(''id'', PStr sample_uuid),
           (''keyHash'',
            PStr ''77fd835a02a5f73f545551bfe85b90c8597625a1424cf6a31a991539932b68d3''),
           (''userId'', PStr ''u1''),
           (''userEmail'', PStr ''u1@example.org''),
           (''name'', PStr ''My API Key''),
           (''description'', PStr []),
           (''createdAt'', PStr ''2024-01-01T00:00:00Z''),
           (''startDate'', PStr ''2024-01-01T00:00:00Z''),
           (''expiresAt'', PStr ''2024-01-31T00:00:00Z''),
           (''isActive'', PBool True),
           (''requestCount'', PInt 2),
           (''rateLimit'', PInt 2),
           (''allowedEndpoints'', PList [''/api/news'', ''/api/news/search'']),
           (''lastUsedAt'', PNone),
           (''ipWhitelist'', PNone),
           (''metadata'', PNone)])],
      usageLogs = []\<rparr>"

text \<open>The document of a logged request of the sample key, and a store with four of them.\<close>

definition sample_log :: "string \<Rightarrow> int \<Rightarrow> int \<Rightarrow> doc" where
  "sample_log i sc rt =
     UsageLog_to_dict
       \<lparr>id_log = i,
        api_key_id = sample_uuid,
        endpoint = ''/api/news'',
        method_log = ''GET'',
        status_code = sc,
        response_time = rt,
        timestamp = ''2024-01-01T00:00:00Z'',
        ip_address = ''203.0.113.7'',
        user_agent = ''curl/8.5.0'',
        query_params = None\<rparr>"

definition db_four_logs :: firestore where
  "db_four_logs =
     \<lparr>apiKeys = [],
      usageLogs =
        [(''log-1'', sample_log ''log-1'' 200 120),
         (''log-2'', sample_log ''log-2'' 404 35),
         (''log-3'', sample_log ''log-3'' 201 210),
         (''log-4'', sample_log ''log-4'' 500 950)]\<rparr>"

section \<open>The renaming of field names and the construction of a key object\<close>

lemma remap_key_keyHash: "remap_key ''keyHash'' = ''keyHash''"
  by (simp add: remap_key_def)

lemma fst_set_fold_update:
  "fst ` set (fold (\<lambda>(k, v) acc. AList.update (f k) v acc) d acc) =
     fst ` set acc \<union> f ` fst ` set d"
  by (induction d arbitrary: acc) (auto simp: dom_update split: prod.splits)

lemma fst_set_remap_dict: "fst ` set (remap_dict d) = remap_key ` fst ` set d"
  by (simp add: remap_dict_def fst_set_fold_update)

lemma keyHash_no_field: "''keyHash'' \<notin> set ApiKey_fields"
  by (simp add: ApiKey_fields_def)

text \<open>
  A document with a field \<^verbatim>\<open>keyHash\<close> keeps that name under the renaming, and
  \<^verbatim>\<open>ApiKey\<close> has no parameter of that name.
\<close>

lemma ApiKey_init_keyHash:
  assumes "map_of d ''keyHash'' = Some v"
  shows "ApiKey_init (remap_dict d) = Inl TypeError"
proof -
  from assms have "(''keyHash'', v) \<in> set d" by (rule map_of_SomeD)
  then have "''keyHash'' \<in> fst ` set d" by force
  then have "remap_key ''keyHash'' \<in> fst ` set (remap_dict d)"
    unfolding fst_set_remap_dict by (rule imageI)
  then have "''keyHash'' \<in> set (map fst (remap_dict d))"
    by (simp add: remap_key_keyHash)
  with keyHash_no_field have "list_ex (\<lambda>k. k \<notin> set ApiKey_fields) (map fst (remap_dict d))"
    unfolding list_ex_iff by blast
  then show ?thesis by (simp add: ApiKey_init_def)
qed

lemma where_eq_field: "(i, d) \<in> set (where_eq c f v) \<Longrightarrow> map_of d f = Some v"
  by (auto simp: where_eq_def)

lemma where_eq_mem:
  "(i, d) \<in> set c \<Longrightarrow> map_of d f = Some v \<Longrightarrow> (i, d) \<in> set (where_eq c f v)"
  by (simp add: where_eq_def)

lemma validate_docs_found:
  assumes "where_eq (apiKeys s) ''keyHash'' v \<noteq> []"
  shows "validate_docs L now (map snd (take 1 (where_eq (apiKeys s) ''keyHash'' v))) =
           Inl TypeError"
proof -
  from assms obtain i d ps where w: "where_eq (apiKeys s) ''keyHash'' v = (i, d) # ps"
    by (cases "where_eq (apiKeys s) ''keyHash'' v") auto
  then have "(i, d) \<in> set (where_eq (apiKeys s) ''keyHash'' v)" by simp
  then have f: "map_of d ''keyHash'' = Some v" by (rule where_eq_field)
  then have "d \<noteq> []" by auto
  with w f show ?thesis by (simp add: ApiKey_init_keyHash)
qed

text \<open>
  The checks on a key object come in the order status, start date, expiry: a key object
  that is not active is reported as revoked whatever its dates hold.
\<close>

lemma check_key_revoked_first:
  "\<not> truthy (is_active k) \<Longrightarrow> check_key L now k = Inr ([KeyRevoked], None)"
  by (simp add: check_key_def)

section \<open>Facts about the store and about \<^verbatim>\<open>create_api_key\<close>\<close>

lemma doc_get_doc_set: "doc_get (doc_set c i d) j = (if j = i then Some d else doc_get c j)"
  by (simp add: doc_get_def doc_set_def update_conv')

lemma doc_get_doc_update:
  "doc_get (doc_update c i fs) j =
     (if j = i then map_option (fold (\<lambda>(k, v). AList.update k v) fs) (doc_get c i)
      else doc_get c j)"
  by (simp add: doc_get_def doc_update_def map_of_map_entry split: option.splits)

lemma doc_set_mem: "(i, d) \<in> set (doc_set c i d)"
  by (rule map_of_SomeD) (simp add: doc_set_def update_conv')

lemma ApiKey_to_dict_keyHash: "map_of (ApiKey_to_dict k) ''keyHash'' = Some (key_hash k)"
  by (simp add: ApiKey_to_dict_def)

text \<open>A \<^verbatim>\<open>str\<close> of characters below U+0100 has no surrogate: its hash does not raise.\<close>

lemma encode_str_of: "encode (str_of b) = Inr (concat (map utf8 (str_of b)))"
proof -
  have "\<not> list_ex is_surrogate (str_of b)"
  proof
    assume "list_ex is_surrogate (str_of b)"
    then obtain c where "c \<in> set b" and "is_surrogate (of_char c)"
      by (auto simp: list_ex_iff str_of_def)
    moreover have "of_char c < (256::nat)" by simp
    ultimately show False by (simp add: is_surrogate_def)
  qed
  then show ?thesis by (simp add: encode_def)
qed

lemma hash_generated:
  "hash_api_key L (generate_api_key rp) =
     Inr (sha256_hexdigest L (concat (map utf8 (generate_api_key rp))))"
  by (simp add: hash_api_key_def generate_api_key_def encode_str_of)

text \<open>What a successful \<^verbatim>\<open>create_api_key\<close> returns and writes.\<close>

lemma create_api_key_InrD:
  assumes "create_api_key L db rp uid now u e n d days rl eps ips delay = Inr (k, raw, db')"
  shows "raw = generate_api_key rp"
    and "\<exists>h. hash_api_key L raw = Inr h \<and> key_hash k = PStr h"
    and "db' = map_option (\<lambda>s. s\<lparr>apiKeys := doc_set (apiKeys s) uid (ApiKey_to_dict k)\<rparr>) db"
  using assms
  by (auto simp: create_api_key_def Let_def split: sum.splits option.splits)

text \<open>
  The exceptions of \<^verbatim>\<open>create_api_key\<close>: the OverflowError of the dates, and what
  the client raises when it refuses the document.
\<close>

lemma create_api_key_errors:
  assumes "create_api_key L db rp uid now u e n d days rl eps ips delay = Inl x"
  shows "x = OverflowError \<or> (\<exists>doc. set_error L doc = Some x)"
  using assms
  by (auto simp: create_api_key_def Let_def hash_generated timedelta_days_def datetime_add_def
      split: sum.splits option.splits if_splits)

lemmas sample_defs =
  sample_lib_def empty_db_def t_2023_12_31_def t_2024_01_01_def t_2024_01_31_def
  t_2024_02_01_def sample_random_def sample_uuid_def other_uuid_def

lemmas create_defs =
  create_api_key_def timedelta_days_def datetime_add_def datetime_max_def
  generate_api_key_def hash_api_key_def Let_def doc_set_def ApiKey_to_dict_def
  encode_def str_of_def utf8_def is_surrogate_def char_of_def bit_Suc_0_iff

section \<open>Validation\<close>

text \<open>
  C1. With a database, \<^verbatim>\<open>validate_api_key\<close> has three outcomes only: the raw key
  has a lone surrogate and the hash raises UnicodeEncodeError; no document holds the
  digest of the raw key and it reports that the key was not found; or a document holds it
  and the construction of the key object raises TypeError, before any of the checks on
  status, start date and expiry. It never reports a key as revoked, not yet active or
  expired, and never returns a key.
\<close>

theorem validate_api_key_outcomes:
  "validate_api_key L (Some s) now raw_key =
     (case hash_api_key L raw_key of
        Inl e \<Rightarrow> Inl e
      | Inr h \<Rightarrow>
          if where_eq (apiKeys s) ''keyHash'' (PStr h) = []
          then Inr ([KeyNotFound], None)
          else Inl TypeError)"
proof (cases "hash_api_key L raw_key")
  case (Inl e)
  then show ?thesis by (simp add: validate_api_key_def)
next
  case (Inr h)
  show ?thesis
  proof (cases "where_eq (apiKeys s) ''keyHash'' (PStr h) = []")
    case True
    with Inr show ?thesis by (simp add: validate_api_key_def)
  next
    case False
    with Inr validate_docs_found [OF False] show ?thesis
      by (simp add: validate_api_key_def)
  qed
qed

text \<open>
  The key created on 2024-01-01 for 30 days, revoked, and presented on 2024-02-01: it
  is revoked and expired, and the call raises TypeError.
\<close>

theorem validate_api_key_outcomes_witness:
  "(case create_api_key sample_lib (Some empty_db) sample_random sample_uuid t_2024_01_01
          ''u1'' ''u1@example.org'' ''My API Key'' [] 30 1000 None None 0 of
      Inl e \<Rightarrow> False
    | Inr (k, raw, db) \<Rightarrow>
        (case revoke_api_key sample_lib db sample_uuid of
           Inl e \<Rightarrow> False
         | Inr (db', revoked) \<Rightarrow>
             revoked \<and> validate_api_key sample_lib db' t_2024_02_01 raw = Inl TypeError))"
  by (simp add: validate_api_key_outcomes create_defs sample_defs revoke_api_key_def
      doc_get_def doc_update_def where_eq_def)

section \<open>Validation after creation\<close>

text \<open>
  C5. The key that \<^verbatim>\<open>create_api_key\<close> has just stored is not returned by
  \<^verbatim>\<open>validate_api_key\<close>: for the raw key returned, on the database returned, at any
  time, the call raises TypeError, since the stored document has the field
  \<^verbatim>\<open>keyHash\<close>.
\<close>

theorem validate_after_create_raises:
  assumes "create_api_key L (Some s) rp uid t u e n d days rl eps ips delay = Inr (k, raw, db')"
  shows "validate_api_key L db' now raw = Inl TypeError"
proof -
  let ?s' = "s\<lparr>apiKeys := doc_set (apiKeys s) uid (ApiKey_to_dict k)\<rparr>"
  from create_api_key_InrD(3) [OF assms] have db': "db' = Some ?s'" by simp
  from create_api_key_InrD(2) [OF assms] obtain h
    where h: "hash_api_key L raw = Inr h" and kh: "key_hash k = PStr h" by auto
  from kh have "map_of (ApiKey_to_dict k) ''keyHash'' = Some (PStr h)"
    by (simp add: ApiKey_to_dict_keyHash)
  then have "(uid, ApiKey_to_dict k) \<in> set (where_eq (apiKeys ?s') ''keyHash'' (PStr h))"
    by (intro where_eq_mem) (simp_all add: doc_set_mem)
  then have "where_eq (apiKeys ?s') ''keyHash'' (PStr h) \<noteq> []" by auto
  from validate_docs_found [OF this] h show ?thesis
    unfolding db' by (simp add: validate_api_key_def)
qed

text \<open>
  The key created on 2024-01-01 for 30 days and presented at the same instant, inside
  its window from 2024-01-01 to 2024-01-31.
\<close>

theorem validate_after_create_raises_witness:
  "(case create_api_key sample_lib (Some empty_db) sample_random sample_uuid t_2024_01_01
          ''u1'' ''u1@example.org'' ''My API Key'' [] 30 1000 None None 0 of
      Inl e \<Rightarrow> False
    | Inr (k, raw, db) \<Rightarrow>
        read_date sample_lib (start_date k) = Inr t_2024_01_01 \<and>
        read_date sample_lib (expires_at k) = Inr t_2024_01_31 \<and>
        t_2024_01_01 \<le> t_2024_01_31 \<and>
        validate_api_key sample_lib db t_2024_01_01 raw = Inl TypeError)"
proof -
  obtain k raw db
    where h: "create_api_key sample_lib (Some empty_db) sample_random sample_uuid t_2024_01_01
          ''u1'' ''u1@example.org'' ''My API Key'' [] 30 1000 None None 0 = Inr (k, raw, db)"
      and sd: "read_date sample_lib (start_date k) = Inr t_2024_01_01"
      and ex: "read_date sample_lib (expires_at k) = Inr t_2024_01_31"
    by (simp add: create_defs sample_defs read_date_def)
  from validate_after_create_raises [OF h, of t_2024_01_01] h sd ex show ?thesis
    by (simp add: t_2024_01_01_def t_2024_01_31_def)
qed

section \<open>Creation\<close>




text \<open>
  A rate limit of \<open>2\<^sup>6\<^sup>3\<close> is outside 64 bits: with the sample client the call
  raises ValueError on a store, and returns the key object without one.
\<close>

lemma create_api_key_sample_big_limit:
  "create_api_key sample_lib (Some empty_db) sample_random sample_uuid t_2024_01_01
     ''u1'' ''u1@example.org'' ''My API Key'' [] 30 9223372036854775808 None None 0 =
     Inl ValueError \<and>
   (case create_api_key sample_lib None sample_random sample_uuid t_2024_01_01
           ''u1'' ''u1@example.org'' ''My API Key'' [] 30 9223372036854775808 None None 0 of
      Inl e \<Rightarrow> False
    | Inr (k, raw, db) \<Rightarrow> rate_limit k = PInt 9223372036854775808)"
  by (simp add: create_defs sample_defs)

text \<open>
  C6, as the code has it. The digest is a function of the raw key, and
  \<^verbatim>\<open>create_api_key\<close> writes the document under the id drawn without reading the
  store, neither for the digest nor for the id. Of two keys created one after the other,
  the store holds the document of the second under its id, and the document of the first
  under its id unless the two ids are the same; each document has the digest of its own
  raw key, and the two digests are equal exactly when the two raw keys hash alike, as
  they do when the random parts are the same.
\<close>

theorem create_api_key_digest:
  assumes c1: "create_api_key L (Some s) rp1 uid1 now1 u1 e1 n1 d1 days1 rl1 eps1 ips1 delay1 =
                 Inr (k1, raw1, db1)"
    and c2: "create_api_key L db1 rp2 uid2 now2 u2 e2 n2 d2 days2 rl2 eps2 ips2 delay2 =
                 Inr (k2, raw2, db2)"
  shows "\<exists>s2 h1 h2.
           db2 = Some s2 \<and>
           raw1 = generate_api_key rp1 \<and> raw2 = generate_api_key rp2 \<and>
           hash_api_key L raw1 = Inr h1 \<and> hash_api_key L raw2 = Inr h2 \<and>
           map_of (ApiKey_to_dict k1) ''keyHash'' = Some (PStr h1) \<and>
           map_of (ApiKey_to_dict k2) ''keyHash'' = Some (PStr h2) \<and>
           doc_get (apiKeys s2) uid2 = Some (ApiKey_to_dict k2) \<and>
           doc_get (apiKeys s2) uid1 =
             Some (if uid1 = uid2 then ApiKey_to_dict k2 else ApiKey_to_dict k1) \<and>
           (key_hash k1 = key_hash k2) = (h1 = h2) \<and>
           (rp1 = rp2 \<longrightarrow> h1 = h2)"
proof -
  note a = create_api_key_InrD [OF c1] and b = create_api_key_InrD [OF c2]
  from a(2) obtain h1 where h1: "hash_api_key L raw1 = Inr h1" "key_hash k1 = PStr h1" by auto
  from b(2) obtain h2 where h2: "hash_api_key L raw2 = Inr h2" "key_hash k2 = PStr h2" by auto
  from a(1) b(1) h1 h2 have eq: "rp1 = rp2 \<longrightarrow> h1 = h2" by auto
  from a(3) b(3) h1 h2 a(1) b(1) eq show ?thesis
    by (auto simp: doc_get_doc_set ApiKey_to_dict_keyHash)
qed

text \<open>Two keys created with the same random part, under two ids.\<close>

theorem create_api_key_digest_witness:
  "(case create_api_key sample_lib (Some empty_db) sample_random sample_uuid t_2024_01_01
          ''u1'' ''u1@example.org'' ''My API Key'' [] 30 1000 None None 0 of
      Inl e \<Rightarrow> False
    | Inr (k1, raw1, db1) \<Rightarrow>
        (case create_api_key sample_lib db1 sample_random other_uuid t_2024_01_01
                ''u2'' ''u2@example.org'' ''My API Key'' [] 30 1000 None None 0 of
           Inl e \<Rightarrow> False
         | Inr (k2, raw2, db2) \<Rightarrow>
             key_hash k1 = key_hash k2 \<and>
             map_option (\<lambda>s. doc_get (apiKeys s) sample_uuid) db2 =
               Some (Some (ApiKey_to_dict k1)) \<and>
             map_option (\<lambda>s. doc_get (apiKeys s) other_uuid) db2 =
               Some (Some (ApiKey_to_dict k2))))"
proof -
  have ids: "sample_uuid \<noteq> other_uuid" by (simp add: sample_defs)
  obtain k1 raw1 db1
    where c1: "create_api_key sample_lib (Some empty_db) sample_random sample_uuid t_2024_01_01
          ''u1'' ''u1@example.org'' ''My API Key'' [] 30 1000 None None 0 = Inr (k1, raw1, db1)"
    by (simp add: create_defs sample_defs)
  from create_api_key_InrD(3) [OF c1] obtain s1 where s1: "db1 = Some s1" by auto
  obtain k2 raw2 db2
    where c2: "create_api_key sample_lib db1 sample_random other_uuid t_2024_01_01
          ''u2'' ''u2@example.org'' ''My API Key'' [] 30 1000 None None 0 = Inr (k2, raw2, db2)"
    unfolding s1 by (simp add: create_defs sample_defs)
  from create_api_key_digest [OF c1 c2] ids c1 c2 show ?thesis by auto
qed

text \<open>
  The store then holds two documents with one digest: the query for the digest of the
  first key finds both.
\<close>

theorem create_api_key_collision_counterexample:
  "(case create_api_key sample_lib (Some empty_db) sample_random sample_uuid t_2024_01_01
          ''u1'' ''u1@example.org'' ''My API Key'' [] 30 1000 None None 0 of
      Inl e \<Rightarrow> False
    | Inr (k1, raw1, db1) \<Rightarrow>
        (case create_api_key sample_lib db1 sample_random other_uuid t_2024_01_01
                ''u2'' ''u2@example.org'' ''My API Key'' [] 30 1000 None None 0 of
           Inl e \<Rightarrow> False
         | Inr (k2, raw2, db2) \<Rightarrow>
             map_option (\<lambda>s. map fst (where_eq (apiKeys s) ''keyHash'' (key_hash k1))) db2 =
               Some [sample_uuid, other_uuid]))"
  by (simp add: create_defs sample_defs where_eq_def)

text \<open>
  Two keys created under one id: the store holds one document, that of the second key.
\<close>

lemma create_api_key_same_id_overwrites:
  "(case create_api_key sample_lib (Some empty_db) sample_random sample_uuid t_2024_01_01
          ''u1'' ''u1@example.org'' ''My API Key'' [] 30 1000 None None 0 of
      Inl e \<Rightarrow> False
    | Inr (k1, raw1, db1) \<Rightarrow>
        (case create_api_key sample_lib db1 sample_random sample_uuid t_2024_01_01
                ''u2'' ''u2@example.org'' ''My API Key'' [] 30 1000 None None 0 of
           Inl e \<Rightarrow> False
         | Inr (k2, raw2, db2) \<Rightarrow>
             map_option apiKeys db2 = Some [(sample_uuid, ApiKey_to_dict k2)] \<and>
             user_id k1 = PStr ''u1'' \<and> user_id k2 = PStr ''u2''))"
  by (simp add: create_defs sample_defs)

section \<open>Revocation\<close>

text \<open>
  C4, as the code has it. For an id that the client takes as a document of the
  collection, \<^verbatim>\<open>revoke_api_key\<close> returns true exactly when a document of that id
  exists, whether the key is active or not. For a missing id it returns false and leaves
  the store as it is; for an existing one it writes \<^verbatim>\<open>isActive = False\<close> into the
  document, leaves the logs alone, and a second call returns true again. For an id that
  the client refuses the call raises what the client raises.
\<close>

theorem revoke_api_key_exists:
  "(document_ref L key_id = InCollection \<longrightarrow>
      (\<exists>db' r. revoke_api_key L (Some s) key_id = Inr (db', r) \<and>
         r = (doc_get (apiKeys s) key_id \<noteq> None) \<and>
         (doc_get (apiKeys s) key_id = None \<longrightarrow> db' = Some s) \<and>
         (\<forall>d. doc_get (apiKeys s) key_id = Some d \<longrightarrow>
            (\<exists>s'. db' = Some s' \<and>
                  doc_get (apiKeys s') key_id =
                    Some (AList.update ''isActive'' (PBool False) d) \<and>
                  usageLogs s' = usageLogs s \<and>
                  (\<exists>db''. revoke_api_key L (Some s') key_id = Inr (db'', True)))))) \<and>
   (document_ref L key_id = Refused e \<longrightarrow> revoke_api_key L (Some s) key_id = Inl e)"
  by (auto simp: revoke_api_key_def doc_get_doc_update)

text \<open>
  On a store with one key: the id of that key, an id the store does not have, and the
  id \<^verbatim>\<open>a/b\<close> that the sample client refuses.
\<close>

theorem revoke_api_key_exists_witness:
  "document_ref sample_lib sample_uuid = InCollection \<and>
   doc_get (apiKeys db_at_limit) sample_uuid \<noteq> None \<and>
   (case revoke_api_key sample_lib (Some db_at_limit) sample_uuid of
      Inl e \<Rightarrow> False
    | Inr (db', r) \<Rightarrow>
        r \<and>
        map_option (\<lambda>s'. map_option (\<lambda>d. map_of d ''isActive'') (doc_get (apiKeys s') sample_uuid))
          db' = Some (Some (Some (PBool False)))) \<and>
   document_ref sample_lib other_uuid = InCollection \<and>
   doc_get (apiKeys db_at_limit) other_uuid = None \<and>
   revoke_api_key sample_lib (Some db_at_limit) other_uuid = Inr (Some db_at_limit, False) \<and>
   document_ref sample_lib ''a/b'' = Refused ValueError \<and>
   revoke_api_key sample_lib (Some db_at_limit) ''a/b'' = Inl ValueError"
proof -
  have r1: "document_ref sample_lib sample_uuid = InCollection"
    and r2: "document_ref sample_lib other_uuid = InCollection"
    and r3: "document_ref sample_lib ''a/b'' = Refused ValueError"
    by (simp_all add: sample_defs)
  have a: "doc_get (apiKeys db_at_limit) sample_uuid \<noteq> None"
    by (simp add: db_at_limit_def doc_get_def)
  have b: "doc_get (apiKeys db_at_limit) other_uuid = None"
    by (simp add: db_at_limit_def doc_get_def sample_defs)
  from a obtain d where d: "doc_get (apiKeys db_at_limit) sample_uuid = Some d" by auto
  from revoke_api_key_exists [of sample_lib sample_uuid db_at_limit] r1 d
  obtain s' where "revoke_api_key sample_lib (Some db_at_limit) sample_uuid = Inr (Some s', True)"
    and "doc_get (apiKeys s') sample_uuid = Some (AList.update ''isActive'' (PBool False) d)"
    by auto
  moreover from revoke_api_key_exists [of sample_lib other_uuid db_at_limit] r2 b
  have "revoke_api_key sample_lib (Some db_at_limit) other_uuid = Inr (Some db_at_limit, False)"
    by auto
  moreover from revoke_api_key_exists [of sample_lib "''a/b''" db_at_limit ValueError] r3
  have "revoke_api_key sample_lib (Some db_at_limit) ''a/b'' = Inl ValueError"
    by simp
  ultimately show ?thesis using r1 r2 r3 a b by (simp add: update_conv')
qed

text \<open>
  A key is created and revoked twice: the second call, on the key already revoked,
  returns true as the first did.
\<close>

theorem revoke_twice_counterexample:
  "(case create_api_key sample_lib (Some empty_db) sample_random sample_uuid t_2024_01_01
          ''u1'' ''u1@example.org'' ''My API Key'' [] 30 1000 None None 0 of
      Inl e \<Rightarrow> False
    | Inr (k, raw, db) \<Rightarrow>
        (case revoke_api_key sample_lib db sample_uuid of
           Inl e \<Rightarrow> False
         | Inr (db', first) \<Rightarrow>
             (case revoke_api_key sample_lib db' sample_uuid of
                Inl e \<Rightarrow> False
              | Inr (db'', second) \<Rightarrow>
                  first \<and> second \<and>
                  map_option (\<lambda>s'. map_option (\<lambda>d. map_of d ''isActive'')
                                      (doc_get (apiKeys s') sample_uuid)) db' =
                    Some (Some (Some (PBool False))))))"
  by (simp add: create_defs sample_defs revoke_api_key_def doc_get_def doc_update_def)

section \<open>Usage logging\<close>

text \<open>
  The transaction, were it run and its writes accepted, adds one to the counter whatever
  the rate limit is, and stores the log document with it.
\<close>

lemma update_in_transaction_ungated:
  assumes "doc_get (apiKeys s) i = Some d"
    and "map_of d ''requestCount'' = Some (PInt c)"
    and "set_error L [(''requestCount'', PInt (c + 1)), (''lastUsedAt'', kwarg ld ''timestamp'')] =
           None"
    and "set_error L ld = None"
  shows "\<exists>s' d'. update_in_transaction L s i lid ld = Inr s' \<and>
           doc_get (apiKeys s') i = Some d' \<and>
           map_of d' ''requestCount'' = Some (PInt (c + 1)) \<and>
           map_of d' ''rateLimit'' = map_of d ''rateLimit'' \<and>
           doc_get (usageLogs s') lid = Some ld"
  using assms
  by (simp add: update_in_transaction_def py_add_one_def doc_get_doc_update doc_get_doc_set
      update_conv' Let_def)

text \<open>
  C2. With a database, every call of \<^verbatim>\<open>log_usage\<close> raises NameError at the
  decorator \<^verbatim>\<open>@firestore.transactional\<close>, before the transaction is created: no
  counter is read or written and no log document is stored, already for a single call.
\<close>

theorem log_usage_raises_NameError:
  "log_usage L (Some s) uuid4 now key_id ep m sc rt ip ua qp = Inl NameError"
  by (simp add: log_usage_def module_globals_def)

text \<open>
  C7. A key is created with a rate limit of 2: the first call of \<^verbatim>\<open>log_usage\<close> for
  it raises NameError. So does a call on a store whose key already counts 2 requests
  of the 2 allowed: the counter does not become 3.
\<close>

theorem log_usage_at_limit_raises:
  "(case create_api_key sample_lib (Some empty_db) sample_random sample_uuid t_2024_01_01
          ''u1'' ''u1@example.org'' ''My API Key'' [] 30 2 None None 0 of
      Inl e \<Rightarrow> False
    | Inr (k, raw, db) \<Rightarrow>
        log_usage sample_lib db other_uuid t_2024_01_01 sample_uuid ''/api/news'' ''GET'' 200 120
          ''203.0.113.7'' ''curl/8.5.0'' None = Inl NameError) \<and>
   log_usage sample_lib (Some db_at_limit) other_uuid t_2024_01_01 sample_uuid ''/api/news''
     ''GET'' 200 120 ''203.0.113.7'' ''curl/8.5.0'' None = Inl NameError"
  by (simp add: create_defs sample_defs log_usage_def module_globals_def)

section \<open>Usage statistics\<close>

text \<open>
  C8. For a key without log documents \<^verbatim>\<open>get_usage_stats\<close> returns a dictionary of
  three entries, all zero: the total, the average response time and the success rate.
  It has no entry \<^verbatim>\<open>errorCount\<close>.
\<close>

theorem get_usage_stats_no_logs:
  assumes "where_eq (usageLogs s) ''apiKeyId'' (PStr key_id) = []"
  shows "get_usage_stats (Some s) key_id =
           Inr [(''totalRequests'', PInt 0), (''avgResponseTime'', PInt 0),
                (''successRate'', PInt 0)]"
  using assms by (simp add: get_usage_stats_def)

theorem get_usage_stats_no_logs_witness:
  "where_eq (usageLogs empty_db) ''apiKeyId'' (PStr sample_uuid) = [] \<and>
   get_usage_stats (Some empty_db) sample_uuid =
     Inr [(''totalRequests'', PInt 0), (''avgResponseTime'', PInt 0), (''successRate'', PInt 0)] \<and>
   map_of [(''totalRequests'', PInt 0), (''avgResponseTime'', PInt 0), (''successRate'', PInt 0)]
     ''errorCount'' = None"
proof -
  have h: "where_eq (usageLogs empty_db) ''apiKeyId'' (PStr sample_uuid) = []"
    by (simp add: where_eq_def empty_db_def)
  from h get_usage_stats_no_logs [OF h] show ?thesis by simp
qed

text \<open>
  C9. For a key with at least one log document \<^verbatim>\<open>get_usage_stats\<close> raises
  AttributeError: the list it sums over holds dictionaries, and the first
  \<^verbatim>\<open>l.status_code\<close> is read on a dictionary. No total, error count or success
  rate is returned.
\<close>

theorem get_usage_stats_logs_raise:
  assumes "where_eq (usageLogs s) ''apiKeyId'' (PStr key_id) \<noteq> []"
  shows "get_usage_stats (Some s) key_id = Inl AttributeError"
proof -
  from assms obtain l ls
    where "map snd (where_eq (usageLogs s) ''apiKeyId'' (PStr key_id)) = l # ls"
    by (cases "where_eq (usageLogs s) ''apiKeyId'' (PStr key_id)") auto
  then show ?thesis
    by (simp add: get_usage_stats_def Let_def dict_getattr_def)
qed

text \<open>The four log documents with the status codes 200, 404, 201 and 500.\<close>

theorem get_usage_stats_logs_raise_witness:
  "map (\<lambda>(i, l). map_of l ''statusCode'')
     (where_eq (usageLogs db_four_logs) ''apiKeyId'' (PStr sample_uuid)) =
     [Some (PInt 200), Some (PInt 404), Some (PInt 201), Some (PInt 500)] \<and>
   get_usage_stats (Some db_four_logs) sample_uuid = Inl AttributeError"
proof -
  have h: "map (\<lambda>(i, l). map_of l ''statusCode'')
     (where_eq (usageLogs db_four_logs) ''apiKeyId'' (PStr sample_uuid)) =
     [Some (PInt 200), Some (PInt 404), Some (PInt 201), Some (PInt 500)]"
    by (simp add: where_eq_def db_four_logs_def sample_log_def UsageLog_to_dict_def)
  then have "where_eq (usageLogs db_four_logs) ''apiKeyId'' (PStr sample_uuid) \<noteq> []"
    by auto
  from h get_usage_stats_logs_raise [OF this] show ?thesis by simp
qed

section \<open>Without a database\<close>

text \<open>
  C10, as the code has it. When the package is missing the manager has no database.
  Without a database \<^verbatim>\<open>validate_api_key\<close> still hashes the raw key first: it raises
  UnicodeEncodeError for a raw key with a lone surrogate, and for every other raw key it
  prints nothing and returns \<^verbatim>\<open>None\<close>. The other operations return at their test
  for a database, whatever their arguments: \<^verbatim>\<open>revoke_api_key\<close> and
  \<^verbatim>\<open>delete_api_key\<close> return false, \<^verbatim>\<open>get_user_api_keys\<close> returns the empty
  list, \<^verbatim>\<open>get_usage_stats\<close> the empty dictionary, and \<^verbatim>\<open>log_usage\<close> returns
  \<^verbatim>\<open>None\<close>.
\<close>

theorem no_store_outcomes:
  "FirebaseManager_init NotInstalled = Inr None \<and>
   validate_api_key L None now raw_key =
     (if list_ex is_surrogate raw_key then Inl UnicodeEncodeError else Inr ([], None)) \<and>
   revoke_api_key L None key_id = Inr (None, False) \<and>
   delete_api_key L None key_id = Inr (None, False) \<and>
   get_user_api_keys None uid = Inr [] \<and>
   get_usage_stats None key_id = Inr [] \<and>
   log_usage L None uuid4 now key_id ep m sc rt ip ua qp = Inr (None, None)"
  by (simp add: FirebaseManager_init_def validate_api_key_def hash_api_key_def encode_def
      revoke_api_key_def delete_api_key_def get_user_api_keys_def get_usage_stats_def
      log_usage_def)

text \<open>
  The raw key \<^verbatim>\<open>nf_live_\<close> followed by the lone surrogate U+DCFF, which stands for
  the byte FF of a command line argument: without a database the call raises.
\<close>

theorem no_store_validate_counterexample:
  "validate_api_key sample_lib None t_2024_01_01 (str_of ''nf_live_'' @ [56575]) =
     Inl UnicodeEncodeError"
  by (simp add: validate_api_key_def hash_api_key_def encode_def is_surrogate_def str_of_def)

text \<open>A raw key without surrogate, and the same one: the two cases of validation.\<close>

theorem no_store_outcomes_witness:
  "\<not> list_ex is_surrogate (generate_api_key sample_random) \<and>
   validate_api_key sample_lib None t_2024_01_01 (generate_api_key sample_random) =
     Inr ([], None) \<and>
   list_ex is_surrogate (str_of ''nf_live_'' @ [56575]) \<and>
   validate_api_key sample_lib None t_2024_01_01 (str_of ''nf_live_'' @ [56575]) =
     Inl UnicodeEncodeError \<and>
   revoke_api_key sample_lib None ''a/b'' = Inr (None, False) \<and>
   delete_api_key sample_lib None ''a/b'' = Inr (None, False)"
proof -
  have a: "\<not> list_ex is_surrogate (generate_api_key sample_random)"
    by (simp add: generate_api_key_def str_of_def is_surrogate_def sample_random_def)
  have b: "list_ex is_surrogate (str_of ''nf_live_'' @ [56575])"
    by (simp add: str_of_def is_surrogate_def)
  from a b
    no_store_outcomes [of sample_lib t_2024_01_01 "generate_api_key sample_random" "''a/b''"]
    no_store_outcomes [of sample_lib t_2024_01_01 "str_of ''nf_live_'' @ [56575]" "''a/b''"]
  show ?thesis by simp
qed

end
